theory Spec2Isabelle
  imports Complex_Main
begin

section \<open>Numbers, landmarks and the three.js value types\<close>

text \<open>
  JavaScript numbers are modelled as \<^typ>\<open>real\<close>: the arithmetic of the tracker is
  read as exact arithmetic, so rounding, infinities and NaN are outside the model.

  A landmark is the \<^verbatim>\<open>HandLandmark\<close> interface of \<^verbatim>\<open>src/types.ts\<close>; \<^verbatim>\<open>Vector3\<close>,
  \<^verbatim>\<open>Quaternion\<close> and \<^verbatim>\<open>Matrix4\<close> are the three.js classes the tracker computes with. Of
  a \<^verbatim>\<open>Matrix4\<close> only the upper-left 3x3 block is kept, the only part the tracker writes
  or reads (\<open>m\<^sub>i\<^sub>j\<close> is row \<open>i\<close>, column \<open>j\<close>).
\<close>

datatype HandLandmark = HandLandmark (lm_x: real) (lm_y: real) (lm_z: real)

datatype Vector3 = Vector3 (vx: real) (vy: real) (vz: real)

datatype Quaternion = Quaternion (qx: real) (qy: real) (qz: real) (qw: real)

datatype Matrix4 = Matrix4
  (m11: real) (m12: real) (m13: real)
  (m21: real) (m22: real) (m23: real)
  (m31: real) (m32: real) (m33: real)

datatype FacingMode = User | Environment

subsection \<open>The three.js operations used by the tracker\<close>

text \<open>
  These are the methods of three.js that \<^verbatim>\<open>predictWebcam\<close> and \<^verbatim>\<open>HandTrackerGroup\<close> call,
  written out as the library defines them. \<^verbatim>\<open>normalize\<close> is
  \<^verbatim>\<open>divideScalar(this.length() || 1)\<close>: a vector of length zero is divided by one and
  stays the zero vector.
\<close>

definition subVectors :: "Vector3 \<Rightarrow> Vector3 \<Rightarrow> Vector3" where
  "subVectors a b = Vector3 (vx a - vx b) (vy a - vy b) (vz a - vz b)"

definition crossVectors :: "Vector3 \<Rightarrow> Vector3 \<Rightarrow> Vector3" where
  "crossVectors a b =
     Vector3 (vy a * vz b - vz a * vy b)
             (vz a * vx b - vx a * vz b)
             (vx a * vy b - vy a * vx b)"

definition dot :: "Vector3 \<Rightarrow> Vector3 \<Rightarrow> real" where
  "dot a b = vx a * vx b + vy a * vy b + vz a * vz b"

definition lengthSq :: "Vector3 \<Rightarrow> real" where
  "lengthSq v = vx v * vx v + vy v * vy v + vz v * vz v"

definition vlength :: "Vector3 \<Rightarrow> real" where
  "vlength v = sqrt (lengthSq v)"

definition multiplyScalar :: "Vector3 \<Rightarrow> real \<Rightarrow> Vector3" where
  "multiplyScalar v s = Vector3 (vx v * s) (vy v * s) (vz v * s)"

definition divideScalar :: "Vector3 \<Rightarrow> real \<Rightarrow> Vector3" where
  "divideScalar v s = multiplyScalar v (1 / s)"

definition normalize :: "Vector3 \<Rightarrow> Vector3" where
  "normalize v = divideScalar v (if vlength v = 0 then 1 else vlength v)"

definition negate :: "Vector3 \<Rightarrow> Vector3" where
  "negate v = Vector3 (- vx v) (- vy v) (- vz v)"

definition lerp :: "Vector3 \<Rightarrow> Vector3 \<Rightarrow> real \<Rightarrow> Vector3" where
  "lerp u v alpha =
     Vector3 (vx u + (vx v - vx u) * alpha)
             (vy u + (vy v - vy u) * alpha)
             (vz u + (vz v - vz u) * alpha)"


definition makeBasis :: "Vector3 \<Rightarrow> Vector3 \<Rightarrow> Vector3 \<Rightarrow> Matrix4" where
  "makeBasis xAxis yAxis zAxis =
     Matrix4 (vx xAxis) (vx yAxis) (vx zAxis)
             (vy xAxis) (vy yAxis) (vy zAxis)
             (vz xAxis) (vz yAxis) (vz zAxis)"

definition setFromRotationMatrix :: "Matrix4 \<Rightarrow> Quaternion" where
  "setFromRotationMatrix m =
     (let trace = m11 m + m22 m + m33 m in
      if trace > 0 then
        (let s = 0.5 / sqrt (trace + 1) in
         Quaternion ((m32 m - m23 m) * s) ((m13 m - m31 m) * s) ((m21 m - m12 m) * s) (0.25 / s))
      else if m11 m > m22 m \<and> m11 m > m33 m then
        (let s = 2 * sqrt (1 + m11 m - m22 m - m33 m) in
         Quaternion (0.25 * s) ((m12 m + m21 m) / s) ((m13 m + m31 m) / s) ((m32 m - m23 m) / s))
      else if m22 m > m33 m then
        (let s = 2 * sqrt (1 + m22 m - m11 m - m33 m) in
         Quaternion ((m12 m + m21 m) / s) (0.25 * s) ((m23 m + m32 m) / s) ((m13 m - m31 m) / s))
      else
        (let s = 2 * sqrt (1 + m33 m - m11 m - m22 m) in
         Quaternion ((m13 m + m31 m) / s) ((m23 m + m32 m) / s) (0.25 * s) ((m21 m - m12 m) / s)))"

subsection \<open>Quaternion interpolation\<close>

text \<open>
  \<^verbatim>\<open>Quaternion.slerp(qb, t)\<close> has had two bodies in three.js. The long-standing one,
  \<open>slerp\<close>, takes the cosine of the half angle, returns the receiver unchanged when that
  cosine reaches 1, blends linearly and normalizes when the squared sine is at most
  \<^verbatim>\<open>Number.EPSILON\<close>, and otherwise weights the two quaternions by sines of the angle
  obtained with \<^verbatim>\<open>Math.atan2\<close>. The body of recent releases, \<open>slerpAcos\<close>, takes the
  angle with \<^verbatim>\<open>Math.acos\<close> and blends linearly and normalizes as soon as the dot
  product reaches 0.9995. Both negate the target first when the dot product is negative,
  so as to interpolate along the shorter arc. \<open>qnegate\<close> and \<open>qcombine\<close> only name the
  componentwise negation and the componentwise weighted sum the bodies write out;
  \<open>qnormalize\<close> is \<^verbatim>\<open>Quaternion.normalize\<close>, which turns the zero quaternion into the
  identity.
\<close>

definition EPSILON :: real where
  "EPSILON = 1 / 2 ^ 52"

definition atan2 :: "real \<Rightarrow> real \<Rightarrow> real" where
  "atan2 y x =
     (if x > 0 then arctan (y / x)
      else if x < 0 then (if y \<ge> 0 then arctan (y / x) + pi else arctan (y / x) - pi)
      else if y > 0 then pi / 2
      else if y < 0 then - (pi / 2)
      else 0)"

definition qdot :: "Quaternion \<Rightarrow> Quaternion \<Rightarrow> real" where
  "qdot a b = qx a * qx b + qy a * qy b + qz a * qz b + qw a * qw b"

definition qlength :: "Quaternion \<Rightarrow> real" where
  "qlength q = sqrt (qx q * qx q + qy q * qy q + qz q * qz q + qw q * qw q)"

definition qnormalize :: "Quaternion \<Rightarrow> Quaternion" where
  "qnormalize q =
     (let l = qlength q in
      if l = 0 then Quaternion 0 0 0 1
      else Quaternion (qx q * (1 / l)) (qy q * (1 / l)) (qz q * (1 / l)) (qw q * (1 / l)))"

definition qnegate :: "Quaternion \<Rightarrow> Quaternion" where
  "qnegate q = Quaternion (- qx q) (- qy q) (- qz q) (- qw q)"

definition qcombine :: "real \<Rightarrow> Quaternion \<Rightarrow> real \<Rightarrow> Quaternion \<Rightarrow> Quaternion" where
  "qcombine a p b q =
     Quaternion (qx p * a + qx q * b) (qy p * a + qy q * b)
                (qz p * a + qz q * b) (qw p * a + qw q * b)"

definition slerp :: "Quaternion \<Rightarrow> Quaternion \<Rightarrow> real \<Rightarrow> Quaternion" where
  "slerp this qb t =
     (if t = 0 then this
      else if t = 1 then qb
      else
        (let cosHalfTheta0 = qw this * qw qb + qx this * qx qb + qy this * qy qb + qz this * qz qb;
             target = (if cosHalfTheta0 < 0 then qnegate qb else qb);
             cosHalfTheta = (if cosHalfTheta0 < 0 then - cosHalfTheta0 else cosHalfTheta0)
         in if cosHalfTheta \<ge> 1 then this
            else
              (let sqrSinHalfTheta = 1 - cosHalfTheta * cosHalfTheta in
               if sqrSinHalfTheta \<le> EPSILON then qnormalize (qcombine (1 - t) this t target)
               else
                 (let sinHalfTheta = sqrt sqrSinHalfTheta;
                      halfTheta = atan2 sinHalfTheta cosHalfTheta;
                      ratioA = sin ((1 - t) * halfTheta) / sinHalfTheta;
                      ratioB = sin (t * halfTheta) / sinHalfTheta
                  in qcombine ratioA this ratioB target))))"

definition slerpAcos :: "Quaternion \<Rightarrow> Quaternion \<Rightarrow> real \<Rightarrow> Quaternion" where
  "slerpAcos this qb t =
     (if t \<le> 0 then this
      else if t \<ge> 1 then qb
      else
        (let dot0 = qdot this qb;
             target = (if dot0 < 0 then qnegate qb else qb);
             dot = (if dot0 < 0 then - dot0 else dot0)
         in if dot < 0.9995 then
              (let theta = arccos dot;
                   sn = sin theta;
                   s = sin ((1 - t) * theta) / sn;
                   t' = sin (t * theta) / sn
               in qcombine s this t' target)
            else qnormalize (qcombine (1 - t) this t target)))"

section \<open>The detection callback: \<^verbatim>\<open>predictWebcam\<close> (src/App.tsx)\<close>

subsection \<open>State held in refs\<close>

text \<open>
  The refs of \<^verbatim>\<open>App\<close> that the detection callback writes. The React state
  \<^verbatim>\<open>isHandDetected\<close>, which is passed on as \<^verbatim>\<open>isVisible\<close>, is set together with
  \<^verbatim>\<open>isHandDetectedRef\<close> and to the same value, so one field stands for both.
\<close>

record trackerRefs =
  handPosition :: Vector3
  handScale :: Vector3
  handRotation :: Quaternion
  isHandDetected :: bool
  lastDetectionTime :: real

definition initialRefs :: trackerRefs where
  "initialRefs =
     \<lparr> handPosition = Vector3 0 0 0,
       handScale = Vector3 1 1 1,
       handRotation = Quaternion 0 0 0 1,
       isHandDetected = False,
       lastDetectionTime = 0 \<rparr>"

subsection \<open>Position\<close>

definition ratio :: real where
  "ratio = 0"

definition palmX :: "HandLandmark \<Rightarrow> HandLandmark \<Rightarrow> real" where
  "palmX wrist middleFingerMCP = lm_x wrist * (1 - ratio) + lm_x middleFingerMCP * ratio"

definition palmY :: "HandLandmark \<Rightarrow> HandLandmark \<Rightarrow> real" where
  "palmY wrist middleFingerMCP = lm_y wrist * (1 - ratio) + lm_y middleFingerMCP * ratio"

definition isMirrored :: "FacingMode \<Rightarrow> bool" where
  "isMirrored facingMode = (facingMode = User)"

definition xCoord3D :: "FacingMode \<Rightarrow> real \<Rightarrow> real" where
  "xCoord3D facingMode px =
     (if isMirrored facingMode then (1 - px) * 2 - 1 else (px * 2) - 1)"

definition distance :: real where
  "distance = 5"

definition fov :: real where
  "fov = 50"

definition vFov :: real where
  "vFov = (fov * pi) / 180"

definition height :: real where
  "height = 2 * tan (vFov / 2) * distance"

definition width :: "real \<Rightarrow> real" where
  "width aspect = height * aspect"

definition positionVector :: "FacingMode \<Rightarrow> real \<Rightarrow> HandLandmark \<Rightarrow> HandLandmark \<Rightarrow> Vector3" where
  "positionVector facingMode aspect wrist middleFingerMCP =
     (let vector = Vector3 (xCoord3D facingMode (palmX wrist middleFingerMCP))
                           (- (palmY wrist middleFingerMCP * 2 - 1) + 1)
                           (- 10)
      in Vector3 (vx vector * (width aspect / 2)) (vy vector * (height / 2)) (vz vector))"

subsection \<open>Scale\<close>

definition handSize :: "HandLandmark \<Rightarrow> HandLandmark \<Rightarrow> real" where
  "handSize wrist middleFingerMCP =
     (let dx = lm_x wrist - lm_x middleFingerMCP;
          dy = lm_y wrist - lm_y middleFingerMCP
      in sqrt (dx * dx + dy * dy))"

definition scaleMultiplier :: real where
  "scaleMultiplier = 12"

definition targetScale :: "HandLandmark \<Rightarrow> HandLandmark \<Rightarrow> real" where
  "targetScale wrist middleFingerMCP = handSize wrist middleFingerMCP * scaleMultiplier"

subsection \<open>Rotation\<close>

definition getVector :: "FacingMode \<Rightarrow> real \<Rightarrow> HandLandmark \<Rightarrow> Vector3" where
  "getVector facingMode aspect point =
     (let xVal = (if isMirrored facingMode then 1 - lm_x point else lm_x point);
          zVal = - lm_z point
      in Vector3 (xVal * aspect) (- lm_y point) (zVal * aspect))"

text \<open>The four landmarks the rotation is computed from, in the order wrist, middle, index, pinky.\<close>

type_synonym palm = "HandLandmark \<times> HandLandmark \<times> HandLandmark \<times> HandLandmark"

definition vecToUser :: "FacingMode \<Rightarrow> real \<Rightarrow> palm \<Rightarrow> Vector3" where
  "vecToUser facingMode aspect p =
     (case p of (wrist, middleFingerMCP, indexFingerMCP, pinkyFingerMCP) \<Rightarrow>
        subVectors (getVector facingMode aspect wrist) (getVector facingMode aspect middleFingerMCP))"

definition palmNormal :: "FacingMode \<Rightarrow> real \<Rightarrow> palm \<Rightarrow> Vector3" where
  "palmNormal facingMode aspect p =
     (case p of (wrist, middleFingerMCP, indexFingerMCP, pinkyFingerMCP) \<Rightarrow>
        (let vWrist = getVector facingMode aspect wrist;
             vMiddle = getVector facingMode aspect middleFingerMCP;
             vIndex = getVector facingMode aspect indexFingerMCP;
             vPinky = getVector facingMode aspect pinkyFingerMCP;
             palmAcross = normalize (subVectors vPinky vIndex);
             fingerDir = normalize (subVectors vMiddle vWrist);
             n = normalize (crossVectors palmAcross fingerDir)
         in if vz n < 0 then negate n else n))"

text \<open>
  \<open>flatProjection\<close> is \<^verbatim>\<open>flatForward\<close> as first built (line 274), \<open>flatChosen\<close> is it
  after the fallback test (line 278) and \<open>flatForward\<close> after \<^verbatim>\<open>normalize()\<close> (line 282).
\<close>

definition flatProjection :: "FacingMode \<Rightarrow> real \<Rightarrow> palm \<Rightarrow> Vector3" where
  "flatProjection facingMode aspect p =
     Vector3 (vx (vecToUser facingMode aspect p)) 0 (vz (vecToUser facingMode aspect p))"

definition flatChosen :: "FacingMode \<Rightarrow> real \<Rightarrow> palm \<Rightarrow> Vector3" where
  "flatChosen facingMode aspect p =
     (if lengthSq (flatProjection facingMode aspect p) < 0.01
      then Vector3 (vx (palmNormal facingMode aspect p)) 0 (vz (palmNormal facingMode aspect p))
      else flatProjection facingMode aspect p)"

definition flatForward :: "FacingMode \<Rightarrow> real \<Rightarrow> palm \<Rightarrow> Vector3" where
  "flatForward facingMode aspect p = normalize (flatChosen facingMode aspect p)"

definition targetY :: Vector3 where
  "targetY = Vector3 0 1 0"

definition targetX :: "FacingMode \<Rightarrow> real \<Rightarrow> palm \<Rightarrow> Vector3" where
  "targetX facingMode aspect p = normalize (crossVectors targetY (flatForward facingMode aspect p))"

definition targetZ :: "FacingMode \<Rightarrow> real \<Rightarrow> palm \<Rightarrow> Vector3" where
  "targetZ facingMode aspect p = normalize (crossVectors (targetX facingMode aspect p) targetY)"

definition targetQuaternion :: "FacingMode \<Rightarrow> real \<Rightarrow> palm \<Rightarrow> Quaternion" where
  "targetQuaternion facingMode aspect p =
     setFromRotationMatrix
       (makeBasis (targetX facingMode aspect p) targetY (targetZ facingMode aspect p))"

subsection \<open>One detection cycle\<close>

text \<open>
  What \<^verbatim>\<open>landmarker.detectForVideo\<close> does on a cycle: it throws, or it returns a result
  whose \<^verbatim>\<open>landmarks\<close> field holds one landmark array per detected hand.
\<close>

datatype detectorOutcome = Throws | Returns "HandLandmark list list"

text \<open>
  The body of the \<^verbatim>\<open>try\<close> block with its \<^verbatim>\<open>catch\<close>. \<open>now\<close> is the value
  \<^verbatim>\<open>performance.now()\<close> returns in the branch taken. Reading a field of a landmark that the
  array does not have raises a \<^verbatim>\<open>TypeError\<close>, which the \<^verbatim>\<open>catch\<close> swallows: the writes made
  before it stay, the later ones do not happen. That is the case for fewer than ten landmarks
  at line 195 and for fewer than eighteen at line 258.
\<close>

definition handLost :: "real \<Rightarrow> trackerRefs \<Rightarrow> trackerRefs" where
  "handLost now s =
     (if isHandDetected s then
        (let timeSinceLastDetect = now - lastDetectionTime s in
         if timeSinceLastDetect > 50 then s\<lparr>isHandDetected := False\<rparr> else s)
      else s)"

definition handFound :: "FacingMode \<Rightarrow> real \<Rightarrow> HandLandmark list \<Rightarrow> real \<Rightarrow> trackerRefs \<Rightarrow> trackerRefs" where
  "handFound facingMode aspect landmarks now s =
     (let s1 = s\<lparr>lastDetectionTime := now, isHandDetected := True\<rparr> in
      if length landmarks \<le> 9 then s1
      else
        (let wrist = landmarks ! 0;
             middleFingerMCP = landmarks ! 9;
             s2 = s1\<lparr>handPosition := positionVector facingMode aspect wrist middleFingerMCP,
                     handScale := Vector3 (targetScale wrist middleFingerMCP)
                                          (targetScale wrist middleFingerMCP)
                                          (targetScale wrist middleFingerMCP)\<rparr>
         in if length landmarks \<le> 17 then s2
            else s2\<lparr>handRotation :=
                      targetQuaternion facingMode aspect
                        (wrist, middleFingerMCP, landmarks ! 5, landmarks ! 17)\<rparr>))"

definition detectionCycle :: "FacingMode \<Rightarrow> real \<Rightarrow> detectorOutcome \<Rightarrow> real \<Rightarrow> trackerRefs \<Rightarrow> trackerRefs" where
  "detectionCycle facingMode aspect outcome now s =
     (case outcome of
        Throws \<Rightarrow> s
      | Returns result \<Rightarrow>
          (case result of
             [] \<Rightarrow> handLost now s
           | landmarks # _ \<Rightarrow> handFound facingMode aspect landmarks now s))"

text \<open>
  The guards in front of the \<^verbatim>\<open>try\<close> block: without a video element or a landmarker, with
  a video of no size, or with a timeline that has not started, the detector is not called
  and no ref is written.
\<close>

record videoStatus =
  videoPresent :: bool
  landmarkerPresent :: bool
  videoWidth :: nat
  videoHeight :: nat
  currentTime :: real

definition predictWebcam ::
  "videoStatus \<Rightarrow> FacingMode \<Rightarrow> real \<Rightarrow> detectorOutcome \<Rightarrow> real \<Rightarrow> trackerRefs \<Rightarrow> trackerRefs" where
  "predictWebcam video facingMode aspect outcome now s =
     (if \<not> videoPresent video \<or> \<not> landmarkerPresent video then s
      else if videoWidth video = 0 \<or> videoHeight video = 0 then s
      else if currentTime video > 0 then detectionCycle facingMode aspect outcome now s
      else s)"

text \<open>A run of detection cycles, each with its own detector outcome and clock reading.\<close>

fun runCycles :: "FacingMode \<Rightarrow> real \<Rightarrow> (detectorOutcome \<times> real) list \<Rightarrow> trackerRefs \<Rightarrow> trackerRefs" where
  "runCycles facingMode aspect [] s = s"
| "runCycles facingMode aspect ((outcome, now) # rest) s =
     runCycles facingMode aspect rest (detectionCycle facingMode aspect outcome now s)"

section \<open>The display callback: \<^verbatim>\<open>HandTrackerGroup\<close> (ARCanvas)\<close>

text \<open>
  The three.js group the model hangs on. The \<^verbatim>\<open>useFrame\<close> callback moves it towards the
  refs once per display frame. The quaternion interpolation is a parameter of the model,
  to be instantiated with \<open>slerp\<close> or \<open>slerpAcos\<close>, the two bodies
  \<^verbatim>\<open>Quaternion.slerp\<close> has had.
\<close>

record trackedGroup =
  position :: Vector3
  scale :: Vector3
  quaternion :: Quaternion

definition frameStep ::
  "(Quaternion \<Rightarrow> Quaternion \<Rightarrow> real \<Rightarrow> Quaternion) \<Rightarrow> trackerRefs \<Rightarrow> trackedGroup \<Rightarrow> trackedGroup" where
  "frameStep interpolate refs g =
     \<lparr> position = lerp (position g) (handPosition refs) 0.2,
       scale = lerp (scale g) (handScale refs) 0.1,
       quaternion = interpolate (quaternion g) (handRotation refs) 0.15 \<rparr>"

definition useFrame ::
  "(Quaternion \<Rightarrow> Quaternion \<Rightarrow> real \<Rightarrow> Quaternion) \<Rightarrow> trackerRefs \<Rightarrow> trackedGroup option \<Rightarrow> trackedGroup option" where
  "useFrame interpolate refs groupRef =
     (case groupRef of None \<Rightarrow> None | Some g \<Rightarrow> Some (frameStep interpolate refs g))"

text \<open>
  Measuring the smoothed orientation: a unit quaternion, the Euclidean distance of two
  quaternions as four-vectors, and the target \<^verbatim>\<open>slerp\<close> steers to, which is the negated
  target when the dot product is negative. A quaternion and its negation are the same
  rotation.
\<close>

definition isUnit :: "Quaternion \<Rightarrow> bool" where
  "isUnit q = (qlength q = 1)"



section \<open>Test inputs\<close>

text \<open>
  The landmark set of the end-to-end scenario: the four landmarks the tracker reads at
  their indices 0, 5, 9 and 17 of a 21-point array, the other points at the origin.
\<close>

definition scenarioWrist :: HandLandmark where
  "scenarioWrist = HandLandmark 0.5 0.5 0"

definition scenarioMiddle :: HandLandmark where
  "scenarioMiddle = HandLandmark 0.5 0.4 0.05"

definition scenarioIndex :: HandLandmark where
  "scenarioIndex = HandLandmark 0.45 0.42 0.05"

definition scenarioPinky :: HandLandmark where
  "scenarioPinky = HandLandmark 0.55 0.42 0.05"

definition scenarioPalm :: palm where
  "scenarioPalm = (scenarioWrist, scenarioMiddle, scenarioIndex, scenarioPinky)"

definition scenarioLandmarks :: "HandLandmark list" where
  "scenarioLandmarks =
     (replicate 21 (HandLandmark 0 0 0))
       [0 := scenarioWrist, 5 := scenarioIndex, 9 := scenarioMiddle, 17 := scenarioPinky]"

text \<open>A hand whose 21 landmarks all lie on one point, and refs that show a hand.\<close>

definition coincidentLandmarks :: "HandLandmark list" where
  "coincidentLandmarks = replicate 21 (HandLandmark 0.5 0.5 0)"

definition visibleRefs :: trackerRefs where
  "visibleRefs = initialRefs\<lparr>isHandDetected := True, lastDetectionTime := 1000\<rparr>"









section \<open>Horizontal mirroring\<close>

text \<open>
  C6. In mirrored mode (the front camera, facing mode \<^verbatim>\<open>user\<close>) the device-space horizontal
  coordinate at \<open>nx\<close> is \<open>(1 - nx) * 2 - 1\<close>; it is the unmirrored coordinate at \<open>1 - nx\<close>
  and the negation of the unmirrored coordinate at \<open>nx\<close>. This holds for every \<open>nx\<close>, so
  for every \<open>nx\<close> in [0,1]; at 0.3 mirrored and 0.7 unmirrored both give 0.4.
\<close>

theorem mirror_symmetry:
  "xCoord3D User nx = (1 - nx) * 2 - 1
   \<and> xCoord3D User nx = xCoord3D Environment (1 - nx)
   \<and> xCoord3D User nx = - xCoord3D Environment nx
   \<and> xCoord3D User 0.3 = xCoord3D Environment 0.7
   \<and> xCoord3D User 0.3 = 0.4"
  by (simp add: xCoord3D_def isMirrored_def)

section \<open>The presence gate\<close>

lemma handFound_presence:
  "isHandDetected (handFound facingMode aspect landmarks now s)
   \<and> lastDetectionTime (handFound facingMode aspect landmarks now s) = now"
  by (simp add: handFound_def Let_def)

lemma handLost_presence:
  "isHandDetected (handLost now s) = (isHandDetected s \<and> now - lastDetectionTime s \<le> 50)
   \<and> lastDetectionTime (handLost now s) = lastDetectionTime s"
  by (auto simp add: handLost_def Let_def)

lemma handLost_targets:
  "handPosition (handLost now s) = handPosition s
   \<and> handScale (handLost now s) = handScale s
   \<and> handRotation (handLost now s) = handRotation s"
  by (simp add: handLost_def Let_def)

lemma runCycles_misses:
  "isHandDetected (runCycles facingMode aspect (map (\<lambda>t. (Returns [], t)) ts) s)
     = (isHandDetected s \<and> (\<forall>t\<in>set ts. t - lastDetectionTime s \<le> 50))
   \<and> lastDetectionTime (runCycles facingMode aspect (map (\<lambda>t. (Returns [], t)) ts) s)
     = lastDetectionTime s"
proof (induction ts arbitrary: s)
  case Nil
  show ?case by simp
next
  case (Cons t ts)
  show ?case
    using Cons.IH [of "handLost t s"] handLost_presence [of t s]
    by (auto simp add: detectionCycle_def)
qed

text \<open>
  C1. A cycle with a hand makes the hand visible at once and records the clock reading. A
  cycle without a hand leaves the hand visible exactly when it was visible and no more than
  50 ms have passed since the recorded detection, and does not touch the recorded time. So,
  after a detection at \<open>t0\<close> followed by any run of cycles without a hand, the hand is
  visible exactly when every one of those cycles ran within 50 ms of \<open>t0\<close>: a miss inside
  the window keeps it, the first miss after the window drops it, and it stays dropped.
\<close>

theorem presence_gate_hysteresis:
  "isHandDetected (detectionCycle facingMode aspect (Returns (landmarks # hands)) now s)
   \<and> lastDetectionTime (detectionCycle facingMode aspect (Returns (landmarks # hands)) now s) = now
   \<and> isHandDetected (detectionCycle facingMode aspect (Returns []) now s)
       = (isHandDetected s \<and> now - lastDetectionTime s \<le> 50)
   \<and> lastDetectionTime (detectionCycle facingMode aspect (Returns []) now s) = lastDetectionTime s
   \<and> isHandDetected
         (runCycles facingMode aspect
            ((Returns (landmarks # hands), t0) # map (\<lambda>t. (Returns [], t)) ts) s)
       = (\<forall>t\<in>set ts. t - t0 \<le> 50)"
proof -
  let ?s1 = "detectionCycle facingMode aspect (Returns (landmarks # hands)) t0 s"
  have found: "isHandDetected ?s1 \<and> lastDetectionTime ?s1 = t0"
    using handFound_presence [of facingMode aspect landmarks t0 s]
    by (simp add: detectionCycle_def)
  have "isHandDetected (runCycles facingMode aspect (map (\<lambda>t. (Returns [], t)) ts) ?s1)
          = (\<forall>t\<in>set ts. t - t0 \<le> 50)"
    using runCycles_misses [of facingMode aspect ts ?s1] found by simp
  then show ?thesis
    using handFound_presence [of facingMode aspect landmarks now s] handLost_presence [of now s]
    by (simp add: detectionCycle_def)
qed

text \<open>
  A detection at 1000 ms: a miss at 1030 ms leaves the hand visible, and so does a second
  miss at 1050 ms; a miss at 1051 ms hides it.
\<close>

theorem presence_gate_hysteresis_witness:
  "isHandDetected
     (runCycles User 1
        [(Returns [coincidentLandmarks], 1000), (Returns [], 1030), (Returns [], 1050)] initialRefs)
   \<and> \<not> isHandDetected
     (runCycles User 1
        [(Returns [coincidentLandmarks], 1000), (Returns [], 1030), (Returns [], 1051)] initialRefs)"
  using presence_gate_hysteresis
          [where facingMode = User and aspect = 1 and landmarks = coincidentLandmarks
             and hands = "[]" and s = initialRefs and ?t0.0 = 1000 and ts = "[1030, 1050]"]
        presence_gate_hysteresis
          [where facingMode = User and aspect = 1 and landmarks = coincidentLandmarks
             and hands = "[]" and s = initialRefs and ?t0.0 = 1000 and ts = "[1030, 1051]"]
  by simp

text \<open>
  C10. A cycle on which the detector reports no hand leaves the position, scale and rotation
  targets and the recorded detection time as they were; when the hand was already not
  visible it leaves every ref as it was.
\<close>

theorem no_hand_frame:
  "handPosition (detectionCycle facingMode aspect (Returns []) now s) = handPosition s
   \<and> handScale (detectionCycle facingMode aspect (Returns []) now s) = handScale s
   \<and> handRotation (detectionCycle facingMode aspect (Returns []) now s) = handRotation s
   \<and> lastDetectionTime (detectionCycle facingMode aspect (Returns []) now s) = lastDetectionTime s
   \<and> (\<not> isHandDetected s \<longrightarrow> detectionCycle facingMode aspect (Returns []) now s = s)"
  using handLost_targets [of now s] handLost_presence [of now s]
  by (simp add: detectionCycle_def handLost_def)

theorem no_hand_frame_witness:
  "\<not> isHandDetected initialRefs
   \<and> detectionCycle User 1 (Returns []) 2000 initialRefs = initialRefs
   \<and> handScale (detectionCycle User 1 (Returns []) 2000 visibleRefs) = Vector3 1 1 1"
  using no_hand_frame [of User 1 2000 initialRefs] no_hand_frame [of User 1 2000 visibleRefs]
  by (simp add: initialRefs_def visibleRefs_def)

section \<open>A throwing detector\<close>

text \<open>
  C9, as the code has it. When \<^verbatim>\<open>detectForVideo\<close> throws, the \<^verbatim>\<open>catch\<close> swallows the
  exception and the cycle leaves every ref as it was, the presence state included. That is
  what a cycle without a hand does, except when the hand is visible and more than 50 ms
  have passed since the recorded detection: the cycle without a hand hides the hand then,
  the throwing cycle does not.
\<close>

theorem detector_exception_keeps_refs:
  "detectionCycle facingMode aspect Throws now s = s
   \<and> ((detectionCycle facingMode aspect Throws now s
         = detectionCycle facingMode aspect (Returns []) now s)
       = (\<not> (isHandDetected s \<and> now - lastDetectionTime s > 50)))"
proof -
  have "(s = handLost now s) = (\<not> (isHandDetected s \<and> now - lastDetectionTime s > 50))"
    by (cases s) (auto simp add: handLost_def Let_def)
  then show ?thesis by (simp add: detectionCycle_def)
qed

text \<open>
  The hand is visible and was last detected at 1000 ms. At 1100 ms a cycle without a hand
  hides it; a cycle on which the detector throws leaves it visible.
\<close>

theorem detector_exception_not_no_hand:
  "isHandDetected (detectionCycle User 1 Throws 1100 visibleRefs)
   \<and> \<not> isHandDetected (detectionCycle User 1 (Returns []) 1100 visibleRefs)"
  by (simp add: detectionCycle_def handLost_def Let_def visibleRefs_def initialRefs_def)

section \<open>Scale and projection\<close>

lemma handSize_nonneg: "0 \<le> handSize wrist middleFingerMCP"
  by (simp add: handSize_def Let_def)

lemma handSize_zero_iff:
  "handSize wrist middleFingerMCP = 0
     \<longleftrightarrow> lm_x wrist = lm_x middleFingerMCP \<and> lm_y wrist = lm_y middleFingerMCP"
  by (simp add: handSize_def Let_def)

lemma handFound_scale:
  "9 < length landmarks \<Longrightarrow>
     handScale (handFound facingMode aspect landmarks now s)
       = Vector3 (targetScale (landmarks ! 0) (landmarks ! 9))
                 (targetScale (landmarks ! 0) (landmarks ! 9))
                 (targetScale (landmarks ! 0) (landmarks ! 9))"
  by (simp add: handFound_def Let_def)

lemma handFound_position:
  "9 < length landmarks \<Longrightarrow>
     handPosition (handFound facingMode aspect landmarks now s)
       = positionVector facingMode aspect (landmarks ! 0) (landmarks ! 9)"
  by (simp add: handFound_def Let_def)

text \<open>
  C2, as the code has it. The scale is 12 times the Euclidean distance of wrist and middle
  knuckle in the image plane, that is in their \<open>x\<close> and \<open>y\<close> coordinates only; \<open>z\<close> is
  not read. It is never negative, and it is zero exactly when the two landmarks have the
  same \<open>x\<close> and the same \<open>y\<close>. Every cycle with a hand of at least ten landmarks writes
  this value to all three components of the scale target.
\<close>

theorem scale_image_plane_distance:
  "targetScale wrist middleFingerMCP
     = 12 * sqrt ((lm_x wrist - lm_x middleFingerMCP)\<^sup>2 + (lm_y wrist - lm_y middleFingerMCP)\<^sup>2)
   \<and> 0 \<le> targetScale wrist middleFingerMCP
   \<and> (targetScale wrist middleFingerMCP = 0
        \<longleftrightarrow> lm_x wrist = lm_x middleFingerMCP \<and> lm_y wrist = lm_y middleFingerMCP)
   \<and> (9 < length landmarks \<longrightarrow>
        handScale (detectionCycle facingMode aspect (Returns (landmarks # hands)) now s)
          = Vector3 (targetScale (landmarks ! 0) (landmarks ! 9))
                    (targetScale (landmarks ! 0) (landmarks ! 9))
                    (targetScale (landmarks ! 0) (landmarks ! 9)))"
  using handSize_nonneg [of wrist middleFingerMCP] handSize_zero_iff [of wrist middleFingerMCP]
    handFound_scale [of landmarks facingMode aspect now s]
  by (simp add: detectionCycle_def targetScale_def scaleMultiplier_def)
     (simp add: handSize_def Let_def power2_eq_square)

theorem scale_image_plane_distance_witness:
  "9 < length coincidentLandmarks
   \<and> handScale (detectionCycle User 1 (Returns [coincidentLandmarks]) 1000 initialRefs)
       = Vector3 0 0 0"
proof -
  have len: "9 < length coincidentLandmarks"
    by (simp add: coincidentLandmarks_def)
  have "targetScale (coincidentLandmarks ! 0) (coincidentLandmarks ! 9) = 0"
    using scale_image_plane_distance
            [of "coincidentLandmarks ! 0" "coincidentLandmarks ! 9" coincidentLandmarks
                User 1 "[]" 1000 initialRefs]
    by (simp add: coincidentLandmarks_def)
  then show ?thesis
    using len scale_image_plane_distance
            [of "coincidentLandmarks ! 0" "coincidentLandmarks ! 9" coincidentLandmarks
                User 1 "[]" 1000 initialRefs]
    by simp
qed

text \<open>
  Wrist and middle knuckle at the same image point but at different depths are two
  different landmarks, at distance 0.1 of each other, and their scale is zero.
\<close>

theorem scale_zero_for_distinct_landmarks:
  "targetScale (HandLandmark 0.5 0.5 0) (HandLandmark 0.5 0.5 0.1) = 0
   \<and> HandLandmark 0.5 0.5 0 \<noteq> HandLandmark 0.5 0.5 0.1"
  by (simp add: targetScale_def handSize_def)

text \<open>
  C7. A cycle with a hand writes the position target
  \<open>(x3 * width / 2, y3 * height / 2, -10)\<close>, where \<open>(nx, ny)\<close> are the normalized
  coordinates of the anchor, the wrist; \<open>x3\<close> is \<open>(1 - nx) * 2 - 1\<close> in mirrored mode
  and \<open>nx * 2 - 1\<close> otherwise; \<open>y3 = -(ny * 2 - 1) + 1\<close>;
  \<open>height = 2 * distance * tan (fov / 2)\<close> for the distance 5 and the vertical field of
  view of 50 degrees; and \<open>width = height * aspect\<close>. The depth is the constant -10,
  whatever the landmark's \<open>z\<close>.
\<close>

theorem viewport_projection:
  "9 < length landmarks \<Longrightarrow>
   handPosition (detectionCycle facingMode aspect (Returns (landmarks # hands)) now s)
     = Vector3
         ((if facingMode = User then (1 - lm_x (landmarks ! 0)) * 2 - 1
           else lm_x (landmarks ! 0) * 2 - 1)
            * ((2 * 5 * tan ((50 * pi / 180) / 2)) * aspect / 2))
         ((- (lm_y (landmarks ! 0) * 2 - 1) + 1) * ((2 * 5 * tan ((50 * pi / 180) / 2)) / 2))
         (- 10)"
  by (simp add: detectionCycle_def handFound_position positionVector_def xCoord3D_def
      isMirrored_def palmX_def palmY_def ratio_def width_def height_def vFov_def fov_def
      distance_def Let_def)

theorem viewport_projection_witness:
  "9 < length scenarioLandmarks
   \<and> handPosition (detectionCycle Environment 2 (Returns [scenarioLandmarks]) 1000 initialRefs)
       = Vector3 0 (5 * tan ((50 * pi / 180) / 2)) (- 10)"
proof -
  have len: "9 < length scenarioLandmarks"
    by (simp add: scenarioLandmarks_def)
  show ?thesis
    using len viewport_projection [OF len, of Environment 2 "[]" 1000 initialRefs]
    by (simp add: scenarioLandmarks_def scenarioWrist_def)
qed

section \<open>The smoother\<close>








section \<open>The orientation basis\<close>

lemma normalize_zero: "normalize (Vector3 0 0 0) = Vector3 0 0 0"
  by (simp add: normalize_def divideScalar_def multiplyScalar_def vlength_def lengthSq_def)

lemma normalize_unit_flat:
  assumes "a * a + b * b = 1"
  shows "normalize (Vector3 a 0 b) = Vector3 a 0 b"
  using assms
  by (simp add: normalize_def divideScalar_def multiplyScalar_def vlength_def lengthSq_def)

lemma normalize_flat:
  assumes "a \<noteq> 0 \<or> b \<noteq> 0"
  shows "\<exists>c d. normalize (Vector3 a 0 b) = Vector3 c 0 d \<and> c * c + d * d = 1"
proof -
  define L where "L = sqrt (a * a + b * b)"
  have "0 < a * a + b * b"
    using assms
    by (metis not_sum_squares_lt_zero sum_squares_eq_zero_iff linorder_neqE_linordered_idom)
  then have L: "0 < L" and LL: "L * L = a * a + b * b"
    by (simp_all add: L_def)
  have n: "normalize (Vector3 a 0 b) = Vector3 (a / L) 0 (b / L)"
    using L
    by (simp add: normalize_def divideScalar_def multiplyScalar_def vlength_def lengthSq_def L_def)
  have "(a / L) * (a / L) + (b / L) * (b / L) = (a * a + b * b) / (L * L)"
    by (simp add: add_divide_distrib)
  also have "\<dots> = 1"
    using assms by (auto simp: LL)
  finally show ?thesis
    using n by blast
qed

lemma flatChosen_flat: "vy (flatChosen facingMode aspect p) = 0"
  by (simp add: flatChosen_def flatProjection_def)

lemma basis_of_unit_forward:
  assumes ff: "flatForward facingMode aspect p = Vector3 c 0 d"
    and u: "c * c + d * d = 1"
  shows "targetX facingMode aspect p = Vector3 d 0 (- c)
         \<and> targetZ facingMode aspect p = Vector3 c 0 d"
proof -
  have u': "d * d + c * c = 1"
    using u by simp
  have x: "targetX facingMode aspect p = Vector3 d 0 (- c)"
    using normalize_unit_flat [of d "- c"] u'
    by (simp add: targetX_def ff targetY_def crossVectors_def)
  have "targetZ facingMode aspect p = Vector3 c 0 d"
    using normalize_unit_flat [of c d] u
    by (simp add: targetZ_def x targetY_def crossVectors_def)
  with x show ?thesis by simp
qed

text \<open>
  C4. When the flat forward vector is not degenerate, that is when the squared length of the
  projection of wrist minus middle knuckle reaches 0.01, or else the palm normal has a
  nonzero horizontal part, the three axes built from it are orthonormal: any two of them
  have dot product 0 and each has length 1. In exact arithmetic this holds with no
  tolerance at all.
\<close>

theorem basis_orthonormal:
  assumes "0.01 \<le> lengthSq (flatProjection facingMode aspect p)
           \<or> vx (palmNormal facingMode aspect p) \<noteq> 0
           \<or> vz (palmNormal facingMode aspect p) \<noteq> 0"
  shows "dot (targetX facingMode aspect p) targetY = 0
         \<and> dot targetY (targetZ facingMode aspect p) = 0
         \<and> dot (targetX facingMode aspect p) (targetZ facingMode aspect p) = 0
         \<and> vlength (targetX facingMode aspect p) = 1
         \<and> vlength targetY = 1
         \<and> vlength (targetZ facingMode aspect p) = 1"
proof -
  obtain fa fb where fc: "flatChosen facingMode aspect p = Vector3 fa 0 fb"
    using flatChosen_flat [of facingMode aspect p]
    by (cases "flatChosen facingMode aspect p") simp
  have nz: "fa \<noteq> 0 \<or> fb \<noteq> 0"
  proof (cases "lengthSq (flatProjection facingMode aspect p) < 0.01")
    case True
    then show ?thesis
      using assms fc by (auto simp: flatChosen_def)
  next
    case False
    then have "flatProjection facingMode aspect p = Vector3 fa 0 fb"
      using fc by (simp add: flatChosen_def)
    then have "lengthSq (flatProjection facingMode aspect p) = fa * fa + fb * fb"
      by (simp add: lengthSq_def)
    then show ?thesis
      using False by auto
  qed
  obtain c d where cd: "normalize (Vector3 fa 0 fb) = Vector3 c 0 d" "c * c + d * d = 1"
    using normalize_flat [OF nz] by blast
  have ff: "flatForward facingMode aspect p = Vector3 c 0 d"
    by (simp add: flatForward_def fc cd)
  have b: "targetX facingMode aspect p = Vector3 d 0 (- c)"
      "targetZ facingMode aspect p = Vector3 c 0 d"
    using basis_of_unit_forward [OF ff cd(2)] by simp_all
  have "d * d + c * c = 1"
    using cd(2) by simp
  then show ?thesis
    using cd(2) by (simp add: b targetY_def dot_def vlength_def lengthSq_def)
qed

text \<open>
  A hand lying sideways, the middle knuckle 0.3 to the left of the wrist: the projection
  has squared length 0.09.
\<close>

theorem basis_orthonormal_witness:
  "(0.01 \<le> lengthSq (flatProjection Environment 1
        (HandLandmark 0.5 0.5 0, HandLandmark 0.2 0.5 0, HandLandmark 0.3 0.4 0, HandLandmark 0.3 0.6 0))
    \<or> vx (palmNormal Environment 1
        (HandLandmark 0.5 0.5 0, HandLandmark 0.2 0.5 0, HandLandmark 0.3 0.4 0, HandLandmark 0.3 0.6 0)) \<noteq> 0
    \<or> vz (palmNormal Environment 1
        (HandLandmark 0.5 0.5 0, HandLandmark 0.2 0.5 0, HandLandmark 0.3 0.4 0, HandLandmark 0.3 0.6 0)) \<noteq> 0)
   \<and> dot (targetX Environment 1
        (HandLandmark 0.5 0.5 0, HandLandmark 0.2 0.5 0, HandLandmark 0.3 0.4 0, HandLandmark 0.3 0.6 0))
        (targetZ Environment 1
        (HandLandmark 0.5 0.5 0, HandLandmark 0.2 0.5 0, HandLandmark 0.3 0.4 0, HandLandmark 0.3 0.6 0))
      = 0
   \<and> vlength (targetZ Environment 1
        (HandLandmark 0.5 0.5 0, HandLandmark 0.2 0.5 0, HandLandmark 0.3 0.4 0, HandLandmark 0.3 0.6 0))
      = 1"
proof -
  let ?p = "(HandLandmark 0.5 0.5 0, HandLandmark 0.2 0.5 0, HandLandmark 0.3 0.4 0,
             HandLandmark 0.3 0.6 0)"
  have "lengthSq (flatProjection Environment 1 ?p) = 9 / 100"
    by (simp add: flatProjection_def vecToUser_def getVector_def isMirrored_def subVectors_def
        lengthSq_def Let_def)
  then have h: "0.01 \<le> lengthSq (flatProjection Environment 1 ?p)
                \<or> vx (palmNormal Environment 1 ?p) \<noteq> 0
                \<or> vz (palmNormal Environment 1 ?p) \<noteq> 0"
    by simp
  show ?thesis
    using h basis_orthonormal [OF h] by simp
qed

section \<open>Coincident landmarks\<close>

lemma subVectors_self: "subVectors v v = Vector3 0 0 0"
  by (simp add: subVectors_def)

lemma coincident_palmNormal: "palmNormal facingMode aspect (q, q, q, q) = Vector3 0 0 0"
  by (simp add: palmNormal_def Let_def subVectors_self normalize_zero crossVectors_def)

lemma coincident_flatForward: "flatForward facingMode aspect (q, q, q, q) = Vector3 0 0 0"
  by (simp add: flatForward_def flatChosen_def flatProjection_def vecToUser_def subVectors_self
      coincident_palmNormal normalize_zero lengthSq_def)

lemma coincident_basis:
  "targetX facingMode aspect (q, q, q, q) = Vector3 0 0 0
   \<and> targetZ facingMode aspect (q, q, q, q) = Vector3 0 0 0"
  by (simp add: targetX_def targetZ_def coincident_flatForward targetY_def crossVectors_def
      normalize_zero)

lemma coincident_quaternion:
  "targetQuaternion facingMode aspect (q, q, q, q) = Quaternion 0 0 0 (sqrt 2 / 2)"
  by (simp add: targetQuaternion_def coincident_basis targetY_def makeBasis_def
      setFromRotationMatrix_def Let_def)

lemma coincident_scale: "targetScale q q = 0"
  by (simp add: targetScale_def handSize_def)

text \<open>
  C5, as the code has it. When wrist, middle, index and pinky knuckle all lie on one point
  \<open>q\<close>, the cycle runs to its end with no exception and no division by zero
  (\<^verbatim>\<open>normalize\<close> divides a vector of length zero by one), and it overwrites all three
  targets: the position target becomes the projection of \<open>q\<close>, the scale target becomes
  zero, and the rotation target is built from the basis whose X and Z axes are the zero
  vector and whose Y axis is \<open>(0, 1, 0)\<close>, which gives the quaternion
  \<open>(0, 0, 0, sqrt 2 / 2)\<close>. Nothing of the previous targets is kept.
\<close>

theorem coincident_landmarks_overwrite_targets:
  assumes "17 < length landmarks"
    and "landmarks ! 0 = q" and "landmarks ! 9 = q"
    and "landmarks ! 5 = q" and "landmarks ! 17 = q"
  shows "detectionCycle facingMode aspect (Returns (landmarks # hands)) now s
           = s\<lparr>lastDetectionTime := now, isHandDetected := True,
               handPosition := positionVector facingMode aspect q q,
               handScale := Vector3 0 0 0,
               handRotation := Quaternion 0 0 0 (sqrt 2 / 2)\<rparr>
         \<and> targetX facingMode aspect (q, q, q, q) = Vector3 0 0 0
         \<and> targetY = Vector3 0 1 0
         \<and> targetZ facingMode aspect (q, q, q, q) = Vector3 0 0 0"
  using assms coincident_basis [of facingMode aspect q]
  by (simp add: detectionCycle_def handFound_def Let_def coincident_scale coincident_quaternion
      targetY_def)

theorem coincident_landmarks_overwrite_targets_witness:
  "17 < length coincidentLandmarks
   \<and> coincidentLandmarks ! 0 = HandLandmark 0.5 0.5 0
   \<and> coincidentLandmarks ! 9 = HandLandmark 0.5 0.5 0
   \<and> coincidentLandmarks ! 5 = HandLandmark 0.5 0.5 0
   \<and> coincidentLandmarks ! 17 = HandLandmark 0.5 0.5 0
   \<and> handScale (detectionCycle User 1 (Returns [coincidentLandmarks]) 1000 initialRefs)
       = Vector3 0 0 0
   \<and> handRotation (detectionCycle User 1 (Returns [coincidentLandmarks]) 1000 initialRefs)
       = Quaternion 0 0 0 (sqrt 2 / 2)"
proof -
  have h: "17 < length coincidentLandmarks"
      "coincidentLandmarks ! 0 = HandLandmark 0.5 0.5 0"
      "coincidentLandmarks ! 9 = HandLandmark 0.5 0.5 0"
      "coincidentLandmarks ! 5 = HandLandmark 0.5 0.5 0"
      "coincidentLandmarks ! 17 = HandLandmark 0.5 0.5 0"
    by (simp_all add: coincidentLandmarks_def)
  show ?thesis
    using h coincident_landmarks_overwrite_targets [OF h, of User 1 "[]" 1000 initialRefs]
    by simp
qed

text \<open>
  From the initial refs, whose scale target is \<open>(1, 1, 1)\<close>, a cycle on the coincident
  hand leaves the scale target at \<open>(0, 0, 0)\<close>, and a smoothed scale that sat on the old
  target is pulled to \<open>(0.9, 0.9, 0.9)\<close> by the next display frame.
\<close>

theorem coincident_landmarks_change_pose:
  "handScale initialRefs = Vector3 1 1 1
   \<and> handScale (detectionCycle User 1 (Returns [coincidentLandmarks]) 1000 initialRefs)
       = Vector3 0 0 0
   \<and> lerp (handScale initialRefs)
        (handScale (detectionCycle User 1 (Returns [coincidentLandmarks]) 1000 initialRefs)) 0.1
       = Vector3 0.9 0.9 0.9"
  by (simp add: detectionCycle_def handFound_def Let_def coincident_scale initialRefs_def
      coincidentLandmarks_def lerp_def)

section \<open>The end-to-end scenario\<close>

lemmas scenario_defs =
  scenarioWrist_def scenarioMiddle_def scenarioIndex_def scenarioPinky_def scenarioPalm_def

lemma sqrt_hundredth: "sqrt (1 / 100) = 1 / 10"
  by (rule real_sqrt_unique) (simp_all add: power2_eq_square)

lemma scenario_scale: "targetScale scenarioWrist scenarioMiddle = 6 / 5"
  by (simp add: targetScale_def handSize_def scaleMultiplier_def scenario_defs Let_def
      sqrt_hundredth)

lemma scenario_nth:
  "scenarioLandmarks ! 0 = scenarioWrist \<and> scenarioLandmarks ! 9 = scenarioMiddle
   \<and> scenarioLandmarks ! 5 = scenarioIndex \<and> scenarioLandmarks ! 17 = scenarioPinky
   \<and> length scenarioLandmarks = 21"
  by (simp add: scenarioLandmarks_def)

lemma scenario_projection: "lengthSq (flatProjection Environment 1 scenarioPalm) = 1 / 400"
  by (simp add: flatProjection_def vecToUser_def getVector_def isMirrored_def subVectors_def
      lengthSq_def scenario_defs Let_def)

lemma normalize_x_axis: "0 < a \<Longrightarrow> normalize (Vector3 a 0 0) = Vector3 1 0 0"
  by (simp add: normalize_def divideScalar_def multiplyScalar_def vlength_def lengthSq_def)

lemma normalize_z_axis: "0 < a \<Longrightarrow> normalize (Vector3 0 0 a) = Vector3 0 0 1"
  by (simp add: normalize_def divideScalar_def multiplyScalar_def vlength_def lengthSq_def)

lemma normalize_unit_yz: "b * b + c * c = 1 \<Longrightarrow> normalize (Vector3 0 b c) = Vector3 0 b c"
  by (simp add: normalize_def divideScalar_def multiplyScalar_def vlength_def lengthSq_def)

lemma scenario_palmNormal:
  "\<exists>b c. palmNormal Environment 1 scenarioPalm = Vector3 0 b c \<and> 0 < c"
proof -
  define L where "L = sqrt (1 / 80 :: real)"
  have L: "0 < L" and LL: "L * L = 1 / 80"
    by (simp_all add: L_def)
  define u where "u = 1 / (20 * L)"
  define v where "v = 1 / (10 * L)"
  have across:
    "normalize (subVectors (getVector Environment 1 scenarioPinky)
                           (getVector Environment 1 scenarioIndex)) = Vector3 1 0 0"
    using normalize_x_axis [of "1 / 10"]
    by (simp add: getVector_def isMirrored_def subVectors_def scenario_defs Let_def)
  have sub:
    "subVectors (getVector Environment 1 scenarioMiddle) (getVector Environment 1 scenarioWrist)
       = Vector3 0 (1 / 10) (- (1 / 20))"
    by (simp add: getVector_def isMirrored_def subVectors_def scenario_defs Let_def)
  have len: "vlength (Vector3 0 (1 / 10) (- (1 / 20))) = L"
    by (simp add: vlength_def lengthSq_def L_def)
  have finger: "normalize (Vector3 0 (1 / 10) (- (1 / 20))) = Vector3 0 v (- u)"
    using L by (simp add: normalize_def len divideScalar_def multiplyScalar_def u_def v_def)
  have cross: "crossVectors (Vector3 1 0 0) (Vector3 0 v (- u)) = Vector3 0 u v"
    by (simp add: crossVectors_def)
  have "u * u + v * v = (1 / 80) / (L * L)"
    by (simp add: u_def v_def field_simps)
  also have "\<dots> = 1"
    by (simp add: LL)
  finally have unit: "normalize (Vector3 0 u v) = Vector3 0 u v"
    by (rule normalize_unit_yz)
  have pos: "0 < v"
    using L by (simp add: v_def)
  have "palmNormal Environment 1 scenarioPalm = Vector3 0 u v"
    using pos by (simp add: palmNormal_def scenarioPalm_def Let_def across sub finger cross unit)
  then show ?thesis
    using pos by blast
qed

lemma scenario_axes:
  "targetX Environment 1 scenarioPalm = Vector3 1 0 0
   \<and> targetZ Environment 1 scenarioPalm = Vector3 0 0 1"
proof -
  obtain b c where pn: "palmNormal Environment 1 scenarioPalm = Vector3 0 b c" and c: "0 < c"
    using scenario_palmNormal by blast
  have "flatChosen Environment 1 scenarioPalm = Vector3 0 0 c"
    by (simp add: flatChosen_def scenario_projection pn)
  then have ff: "flatForward Environment 1 scenarioPalm = Vector3 0 0 1"
    using normalize_z_axis [OF c] by (simp add: flatForward_def)
  have x: "targetX Environment 1 scenarioPalm = Vector3 1 0 0"
    using normalize_x_axis [of 1] by (simp add: targetX_def ff targetY_def crossVectors_def)
  have "targetZ Environment 1 scenarioPalm = Vector3 0 0 1"
    using normalize_z_axis [of 1] by (simp add: targetZ_def x targetY_def crossVectors_def)
  with x show ?thesis by simp
qed

lemma scenario_position_x: "vx (positionVector Environment 1 scenarioWrist scenarioMiddle) = 0"
  by (simp add: positionVector_def xCoord3D_def isMirrored_def palmX_def ratio_def
      scenario_defs Let_def)

text \<open>
  C3, as the code has it. For the scenario's landmark set, unmirrored and with aspect
  ratio 1, the cycle writes the scale \<open>0.1 * 12 = 1.2\<close>: the distance of wrist and middle
  knuckle is taken in the image plane, where it is 0.1, and their depth difference of 0.05
  is not read. The horizontal world position is exactly 0. The projection of the finger
  direction has squared length 0.0025, below the threshold 0.01, so the palm normal is
  taken as forward, and the forward axis is exactly \<open>(0, 0, 1)\<close>; the rotation target is
  the identity quaternion.
\<close>

theorem scenario_pose:
  "handScale (detectionCycle Environment 1 (Returns [scenarioLandmarks]) now s)
     = Vector3 (6 / 5) (6 / 5) (6 / 5)
   \<and> vx (handPosition (detectionCycle Environment 1 (Returns [scenarioLandmarks]) now s)) = 0
   \<and> lengthSq (flatProjection Environment 1 scenarioPalm) < 0.01
   \<and> targetZ Environment 1 scenarioPalm = Vector3 0 0 1
   \<and> handRotation (detectionCycle Environment 1 (Returns [scenarioLandmarks]) now s)
     = Quaternion 0 0 0 1"
proof -
  let ?s' = "detectionCycle Environment 1 (Returns [scenarioLandmarks]) now s"
  have sc: "handScale ?s' = Vector3 (6 / 5) (6 / 5) (6 / 5)"
    by (simp add: detectionCycle_def handFound_def Let_def scenario_nth scenario_scale)
  have px: "vx (handPosition ?s') = 0"
    by (simp add: detectionCycle_def handFound_def Let_def scenario_nth scenario_position_x)
  have fb: "lengthSq (flatProjection Environment 1 scenarioPalm) < 0.01"
    by (simp add: scenario_projection)
  have "handRotation ?s' = targetQuaternion Environment 1 scenarioPalm"
    by (simp add: detectionCycle_def handFound_def Let_def scenario_nth scenarioPalm_def)
  also have "\<dots> = Quaternion 0 0 0 1"
    using scenario_axes
    by (simp add: targetQuaternion_def targetY_def makeBasis_def setFromRotationMatrix_def)
  finally show ?thesis
    using sc px fb scenario_axes by simp
qed

text \<open>
  The scale the cycle writes for the scenario is 1.2; it is not within 0.1 of
  \<open>0.1118 * 12\<close>.
\<close>

theorem scenario_scale_not_1_34:
  "vx (handScale (detectionCycle Environment 1 (Returns [scenarioLandmarks]) 1000 initialRefs))
     = 6 / 5
   \<and> \<not> \<bar>vx (handScale (detectionCycle Environment 1 (Returns [scenarioLandmarks]) 1000 initialRefs))
          - 0.1118 * 12\<bar> < 0.1"
  by (simp add: detectionCycle_def handFound_def Let_def scenario_nth scenario_scale)

section \<open>Smoothing the orientation\<close>

subsection \<open>Quaternions as four-vectors\<close>

lemma isUnit_dot: "isUnit q \<longleftrightarrow> qdot q q = 1"
  by (simp add: isUnit_def qlength_def qdot_def)

lemma qdot_commute: "qdot a b = qdot b a"
  by (simp add: qdot_def mult.commute)













lemma atan2_arccos:
  assumes "0 \<le> c" "c < 1"
  shows "atan2 (sqrt (1 - c * c)) c = arccos c"
proof (cases "c = 0")
  case True
  then show ?thesis by (simp add: atan2_def)
next
  case False
  then have c: "0 < c" using assms by simp
  have b: "0 \<le> arccos c" "arccos c < pi / 2"
  proof -
    show "0 \<le> arccos c" using assms by (simp add: arccos_lbound)
    have "arccos c < arccos 0" using c assms by (intro arccos_less_arccos) simp_all
    then show "arccos c < pi / 2" by simp
  qed
  have s: "sin (arccos c) = sqrt (1 - c * c)"
    using assms by (simp add: sin_arccos_abs power2_eq_square)
  have "tan (arccos c) = sqrt (1 - c * c) / c"
    using assms by (simp add: tan_def s)
  then have "arctan (sqrt (1 - c * c) / c) = arccos c"
    using arctan_tan[of "arccos c"] b by simp
  then show ?thesis using c by (simp add: atan2_def)
qed

subsection \<open>One interpolation step\<close>










subsection \<open>Repeated frames\<close>










subsection \<open>The pointing hand\<close>







lemma sin_add_less:
  fixes a b :: real
  assumes "0 < a" "0 < b" "a + b \<le> pi / 2"
  shows "sin (a + b) < sin a + sin b"
proof -
  have sa: "0 < sin a" and sb: "0 < sin b"
    using assms pi_gt_zero by (auto intro!: sin_gt_zero)
  have "cos b < 1"
    using assms cos_monotone_0_pi[of 0 b] pi_gt_zero by simp
  then have "sin a * cos b < sin a" using sa by simp
  moreover have "cos a \<le> 1" by simp
  then have "cos a * sin b \<le> sin b" using sb by (simp add: mult_left_le_one_le)
  ultimately show ?thesis by (simp add: sin_add)
qed

subsection \<open>Targets of length one, and a target that is not\<close>

text \<open>
  A hand that is not degenerate gives a rotation target of length one. The coincident hand
  gives the target \<open>(0, 0, 0, sqrt 2 / 2)\<close>, of squared length one half; a smoothed
  quaternion sitting on that target is moved off it by the next frame, with either body of
  \<^verbatim>\<open>slerp\<close>. So the statements on the orientation below are about quaternions of length
  one.
\<close>

lemma nonunit_target_moves:
  "qw (slerp (Quaternion 0 0 0 (sqrt 2 / 2)) (Quaternion 0 0 0 (sqrt 2 / 2)) 0.15) > sqrt 2 / 2
   \<and> qw (slerpAcos (Quaternion 0 0 0 (sqrt 2 / 2)) (Quaternion 0 0 0 (sqrt 2 / 2)) 0.15) > sqrt 2 / 2"
proof -
  let ?q = "Quaternion 0 0 0 (sqrt 2 / 2)"
  define th where "th = arccos (1 / 2 :: real)"
  have d: "qdot ?q ?q = 1 / 2" by (simp add: qdot_def)
  have th0: "0 < th"
  proof -
    have "arccos 1 < arccos (1 / 2 :: real)" by (intro arccos_less_arccos) simp_all
    then show ?thesis by (simp add: th_def)
  qed
  have th1: "th \<le> pi / 2" unfolding th_def by (intro arccos_le_pi2) simp_all
  have sth: "0 < sin th" using th0 th1 pi_gt_zero by (intro sin_gt_zero) linarith+
  have "sin (0.85 * th + 0.15 * th) < sin (0.85 * th) + sin (0.15 * th)"
    using th0 th1 by (intro sin_add_less) simp_all
  then have "sin th < sin (0.85 * th) + sin (0.15 * th)" by (simp add: algebra_simps)
  then have big: "1 < sin (0.85 * th) / sin th + sin (0.15 * th) / sin th"
    using sth by (simp add: add_divide_distrib[symmetric])
  have w: "0 < sqrt 2 / 2" by simp
  have grow: "sqrt 2 / 2 < sqrt 2 / 2 * (sin (0.85 * th) / sin th) + sqrt 2 / 2 * (sin (0.15 * th) / sin th)"
  proof -
    have "sqrt 2 / 2 * 1 < sqrt 2 / 2 * (sin (0.85 * th) / sin th + sin (0.15 * th) / sin th)"
      using big w by (rule mult_strict_left_mono)
    then show ?thesis by (simp add: algebra_simps)
  qed
  have eps: "\<not> (3 / 4 :: real) \<le> EPSILON" by (simp add: EPSILON_def)
  have a2: "atan2 (sqrt (3 / 4)) (1 / 2) = th"
    using atan2_arccos[of "1 / 2"] by (simp add: th_def)
  have s34: "sqrt (3 / 4) = sin th"
    using sin_arccos_abs[of "1 / 2"] by (simp add: th_def power2_eq_square)
  have A: "slerp ?q ?q 0.15 = qcombine (sin (0.85 * th) / sin th) ?q (sin (0.15 * th) / sin th) ?q"
    using eps by (simp add: slerp_def Let_def a2) (simp add: s34)
  have B: "slerpAcos ?q ?q 0.15 = qcombine (sin (0.85 * th) / sin th) ?q (sin (0.15 * th) / sin th) ?q"
    by (simp add: slerpAcos_def Let_def d th_def)
  have wA: "qw (slerp ?q ?q 0.15)
      = sqrt 2 / 2 * (sin (0.85 * th) / sin th) + sqrt 2 / 2 * (sin (0.15 * th) / sin th)"
    unfolding A by (simp add: qcombine_def)
  have wB: "qw (slerpAcos ?q ?q 0.15)
      = sqrt 2 / 2 * (sin (0.85 * th) / sin th) + sqrt 2 / 2 * (sin (0.15 * th) / sin th)"
    unfolding B by (simp add: qcombine_def)
  show ?thesis
    unfolding wA wB using grow by simp
qed

lemma rotation_unit:
  assumes "c * c + d * d = 1"
  shows "isUnit (setFromRotationMatrix (makeBasis (Vector3 d 0 (- c)) (Vector3 0 1 0) (Vector3 c 0 d)))"
proof (cases "0 < 1 + 2 * d")
  case True
  define L where "L = sqrt (2 + 2 * d)"
  have L: "0 < L" "L * L = 2 + 2 * d" using True by (simp_all add: L_def)
  have q: "setFromRotationMatrix (makeBasis (Vector3 d 0 (- c)) (Vector3 0 1 0) (Vector3 c 0 d))
        = Quaternion 0 ((c + c) * (0.5 / L)) 0 (0.25 / (0.5 / L))"
    using True by (simp add: setFromRotationMatrix_def makeBasis_def Let_def L_def algebra_simps)
  have "((c + c) * (0.5 / L)) * ((c + c) * (0.5 / L)) + (0.25 / (0.5 / L)) * (0.25 / (0.5 / L))
        = (c * c) / (L * L) + (L * L) / 4"
    using L(1) by (simp add: field_simps)
  also have "\<dots> = (4 * (c * c) + (2 + 2 * d) * (2 + 2 * d)) / (4 * (2 + 2 * d))"
    using True by (simp add: L(2) field_simps)
  also have "4 * (c * c) + (2 + 2 * d) * (2 + 2 * d) = 4 * (c * c + d * d) + 4 + 8 * d"
    by (simp add: algebra_simps)
  also have "\<dots> = 4 * (2 + 2 * d)" using assms by simp
  finally show ?thesis using True by (simp add: q isUnit_dot qdot_def)
next
  case False
  then have dle: "d \<le> - (1 / 2)" by simp
  define L where "L = sqrt (2 - 2 * d)"
  have pos: "0 < 2 - 2 * d" using dle by simp
  have L: "0 < L" "L * L = 2 - 2 * d" using pos by (simp_all add: L_def)
  have q: "setFromRotationMatrix (makeBasis (Vector3 d 0 (- c)) (Vector3 0 1 0) (Vector3 c 0 d))
        = Quaternion 0 (0.25 * (2 * L)) 0 ((c + c) / (2 * L))"
    using False dle by (simp add: setFromRotationMatrix_def makeBasis_def Let_def L_def algebra_simps)
  have "(0.25 * (2 * L)) * (0.25 * (2 * L)) + ((c + c) / (2 * L)) * ((c + c) / (2 * L))
        = (L * L) / 4 + (c * c) / (L * L)"
    using L(1) by (simp add: field_simps)
  also have "\<dots> = ((2 - 2 * d) * (2 - 2 * d) + 4 * (c * c)) / (4 * (2 - 2 * d))"
    using pos by (simp add: L(2) field_simps)
  also have "(2 - 2 * d) * (2 - 2 * d) + 4 * (c * c) = 4 * (c * c + d * d) + 4 - 8 * d"
    by (simp add: algebra_simps)
  also have "\<dots> = 4 * (2 - 2 * d)" using assms by simp
  finally show ?thesis using pos by (simp add: q isUnit_dot qdot_def)
qed

lemma flatForward_unit:
  assumes "0.01 \<le> lengthSq (flatProjection facingMode aspect p)
           \<or> vx (palmNormal facingMode aspect p) \<noteq> 0
           \<or> vz (palmNormal facingMode aspect p) \<noteq> 0"
  shows "\<exists>c d. flatForward facingMode aspect p = Vector3 c 0 d \<and> c * c + d * d = 1"
proof -
  obtain fa fb where fc: "flatChosen facingMode aspect p = Vector3 fa 0 fb"
    using flatChosen_flat [of facingMode aspect p]
    by (cases "flatChosen facingMode aspect p") simp
  have nz: "fa \<noteq> 0 \<or> fb \<noteq> 0"
  proof (cases "lengthSq (flatProjection facingMode aspect p) < 0.01")
    case True
    then show ?thesis
      using assms fc by (auto simp: flatChosen_def)
  next
    case False
    then have "flatProjection facingMode aspect p = Vector3 fa 0 fb"
      using fc by (simp add: flatChosen_def)
    then have "lengthSq (flatProjection facingMode aspect p) = fa * fa + fb * fb"
      by (simp add: lengthSq_def)
    then show ?thesis
      using False by auto
  qed
  then show ?thesis
    using normalize_flat [OF nz] by (simp add: flatForward_def fc)
qed

lemma targetQuaternion_unit:
  assumes "0.01 \<le> lengthSq (flatProjection facingMode aspect p)
           \<or> vx (palmNormal facingMode aspect p) \<noteq> 0
           \<or> vz (palmNormal facingMode aspect p) \<noteq> 0"
  shows "isUnit (targetQuaternion facingMode aspect p)"
proof -
  obtain c d where ff: "flatForward facingMode aspect p = Vector3 c 0 d" and u: "c * c + d * d = 1"
    using flatForward_unit [OF assms] by blast
  have "targetX facingMode aspect p = Vector3 d 0 (- c)" "targetZ facingMode aspect p = Vector3 c 0 d"
    using basis_of_unit_forward [OF ff u] by simp_all
  then show ?thesis
    using rotation_unit [OF u] by (simp add: targetQuaternion_def targetY_def)
qed






end
